theory Spec2Isabelle
  imports Main
begin

text \<open>
  A model of the package \<open>netx\<close>: the resolution of a listen address
  (\<open>resolveListen\<close>), the functions \<open>Listen\<close> and \<open>ListenPacket\<close> that open a
  socket on the resolved targets, and the server that accepts connections and runs
  a handler on each in a goroutine of its own (\<open>Serve\<close>, \<open>serve\<close>).  The
  definitions come first, the properties after them.
\<close>

section \<open>Strings and errors\<close>

text \<open>
  Go strings are byte sequences; they are modelled as \<open>string\<close> (a list of 8-bit
  characters).  Indices are Go \<open>int\<close>s, with \<open>-1\<close> for "not found", as the
  source tests them (\<open>off >= 0\<close>).
\<close>

datatype error =
    errorString string
  | AddrError string string
  | OpError string string error

text \<open>
  \<open>errorString\<close> is what \<open>errors.New\<close> builds, \<open>AddrError Err Addr\<close> is
  \<open>net.AddrError\<close>, and \<open>OpError Op Net Err\<close> is \<open>net.OpError\<close> (the
  operation, the network and the wrapped error).
\<close>

definition errors_New :: "string \<Rightarrow> error" where
  "errors_New text = errorString text"

definition HasPrefix :: "string \<Rightarrow> string \<Rightarrow> bool" where
  "HasPrefix s pre = (take (length pre) s = pre)"

fun Index :: "string \<Rightarrow> string \<Rightarrow> int" where
  "Index [] sub = (if sub = [] then 0 else - 1)"
| "Index (c # s) sub =
     (if HasPrefix (c # s) sub then 0
      else (let i = Index s sub in if i < 0 then - 1 else i + 1))"

fun IndexByte :: "string \<Rightarrow> char \<Rightarrow> int" where
  "IndexByte [] c = - 1"
| "IndexByte (x # s) c =
     (if x = c then 0
      else (let i = IndexByte s c in if i < 0 then - 1 else i + 1))"

definition LastIndexByte :: "string \<Rightarrow> char \<Rightarrow> int" where
  "LastIndexByte s c =
     (let i = IndexByte (rev s) c in if i < 0 then - 1 else int (length s) - 1 - i)"

section \<open>The standard library's host and port functions\<close>

text \<open>
  \<open>net.SplitHostPort\<close> and \<open>net.JoinHostPort\<close> of the Go standard library, which
  \<open>resolveListen\<close> calls.  \<open>SplitHostPort\<close> returns the triple
  \<open>(host, port, err)\<close>; on an error both strings are empty.
\<close>

definition addrErr :: "string \<Rightarrow> string \<Rightarrow> string \<times> string \<times> error option" where
  "addrErr addr why = ([], [], Some (AddrError why addr))"

definition missingPort :: string where
  "missingPort = ''missing port in address''"

definition tooManyColons :: string where
  "tooManyColons = ''too many colons in address''"

definition SplitHostPort_tail ::
  "string \<Rightarrow> string \<Rightarrow> int \<Rightarrow> int \<Rightarrow> int \<Rightarrow> string \<times> string \<times> error option" where
  "SplitHostPort_tail hostport host i j k =
     (if IndexByte (drop (nat j) hostport) (CHR ''['') \<ge> 0
        then addrErr hostport ''unexpected '[' in address''
      else if IndexByte (drop (nat k) hostport) (CHR '']'') \<ge> 0
        then addrErr hostport ''unexpected ']' in address''
      else (host, drop (nat (i + 1)) hostport, None))"

definition SplitHostPort :: "string \<Rightarrow> string \<times> string \<times> error option" where
  "SplitHostPort hostport =
     (let i = LastIndexByte hostport (CHR '':'') in
      if i < 0 then addrErr hostport missingPort
      else if take 1 hostport = ''[''
      then (let end = IndexByte hostport (CHR '']'') in
            if end < 0 then addrErr hostport ''missing ']' in address''
            else if end + 1 = int (length hostport) then addrErr hostport missingPort
            else if end + 1 = i
              then SplitHostPort_tail hostport (take (nat end - 1) (drop 1 hostport)) i 1 (end + 1)
            else if take 1 (drop (nat (end + 1)) hostport) = '':''
              then addrErr hostport tooManyColons
            else addrErr hostport missingPort)
      else (let host = take (nat i) hostport in
            if IndexByte host (CHR '':'') \<ge> 0 then addrErr hostport tooManyColons
            else SplitHostPort_tail hostport host i 0 0))"

definition JoinHostPort :: "string \<Rightarrow> string \<Rightarrow> string" where
  "JoinHostPort host port =
     (if IndexByte host (CHR '':'') \<ge> 0 then ''['' @ host @ '']:'' @ port
      else host @ '':'' @ port)"

section \<open>The host the program runs on\<close>

text \<open>
  What \<open>resolveListen\<close>, \<open>Listen\<close> and \<open>ListenPacket\<close> read from their
  surroundings:
  \<^item> \<open>IsIP\<close> is a function of the repository declared in a file that is not among
    the sources; it is a parameter of the model, so that every theorem holds for
    whatever it computes;
  \<^item> \<open>interfaceTable\<close> is the operating system's table of network interfaces (or
    the error of reading it); the field \<open>Addrs\<close> of an interface is the result of
    its method \<open>Addrs()\<close>, each address already rendered by \<open>String()\<close>;
  \<^item> \<open>listen_error network address\<close> is the error with which
    \<open>net.Listen(network, address)\<close> fails on this host, \<open>None\<close> when it opens a
    listener; \<open>listen_packet_error\<close> is the same for \<open>net.ListenPacket\<close>.
\<close>

record Interface =
  Name :: string
  Addrs :: "error + string list"

record env =
  IsIP :: "string \<Rightarrow> bool"
  interfaceTable :: "error + Interface list"
  listen_error :: "string \<Rightarrow> string \<Rightarrow> error option"
  listen_packet_error :: "string \<Rightarrow> string \<Rightarrow> error option"

definition errInvalidInterfaceName :: error where
  "errInvalidInterfaceName = errors_New ''invalid network interface name''"

definition errNoSuchInterface :: error where
  "errNoSuchInterface = errors_New ''no such network interface''"

definition route_error :: "error \<Rightarrow> error" where
  "route_error e = OpError ''route'' ''ip+net'' e"

text \<open>
  \<open>net.InterfaceByName\<close>: the empty name is refused before the table is read; the
  first interface of that name is returned.
\<close>

definition InterfaceByName :: "env \<Rightarrow> string \<Rightarrow> error + Interface" where
  "InterfaceByName env name =
     (if name = [] then Inl (route_error errInvalidInterfaceName)
      else case interfaceTable env of
             Inl e \<Rightarrow> Inl (route_error e)
           | Inr ift \<Rightarrow>
               (case find (\<lambda>ifi. name = Name ifi) ift of
                  Some ifi \<Rightarrow> Inr ifi
                | None \<Rightarrow> Inl (route_error errNoSuchInterface)))"

section \<open>resolveListen\<close>

text \<open>
  The function returns the Go triple \<open>(network, addrs, err)\<close> of its named results:
  a return with \<open>err\<close> set still carries whatever \<open>network\<close> and \<open>addrs\<close> hold
  at that point.

  \<open>match_protocol\<close> is the loop over \<open>protocols\<close> (lines 78 to 83): the first
  protocol \<open>proto\<close> with \<open>proto + "://"\<close> a prefix of the address fixes the network
  and cuts the prefix off.
\<close>

fun match_protocol :: "string \<Rightarrow> string list \<Rightarrow> string \<times> string" where
  "match_protocol address [] = ([], address)"
| "match_protocol address (proto # protocols) =
     (if HasPrefix address (proto @ ''://'')
      then (proto, drop (length proto + 3) address)
      else match_protocol address protocols)"

text \<open>
  \<open>host_and_port\<close> is lines 91 to 101: the split, and what replaces it when the
  split fails (the error is dropped).
\<close>

definition host_and_port :: "string \<Rightarrow> string \<times> string" where
  "host_and_port address =
     (case SplitHostPort address of
        (host, port, None) \<Rightarrow> (host, port)
      | (host, port, Some e) \<Rightarrow>
          (if HasPrefix address '':'' then (host, drop 1 address)
           else (address, port)))"

text \<open>
  \<open>classify\<close> is lines 103 to 142.  In the last branch \<open>err\<close> still holds the
  error of \<open>net.InterfaceByName\<close>: the condition of the \<open>else if\<close> assigned it to
  the named result, and nothing clears it before the \<open>return\<close>.
\<close>

definition classify ::
  "env \<Rightarrow> string \<Rightarrow> string \<Rightarrow> string \<Rightarrow> string \<Rightarrow> string \<Rightarrow> string \<Rightarrow>
   string \<times> string list \<times> error option" where
  "classify env network address host port defaultProtoNetwork defaultProtoUnix =
     (if IsIP env host
      then (if length network = 0 then defaultProtoNetwork else network, [address], None)
      else case InterfaceByName env host of
             Inr ifi \<Rightarrow>
               (case Addrs ifi of
                  Inl e \<Rightarrow> (network, [], Some e)
                | Inr ifa \<Rightarrow>
                    (if length network = 0 then defaultProtoNetwork else network,
                     map (\<lambda>s. if length port \<noteq> 0 then JoinHostPort s port else s) ifa,
                     None))
           | Inl e \<Rightarrow>
               (if length network = 0 then defaultProtoUnix else network, [address], Some e))"

definition resolveListen ::
  "env \<Rightarrow> string \<Rightarrow> string \<Rightarrow> string \<Rightarrow> string list \<Rightarrow>
   string \<times> string list \<times> error option" where
  "resolveListen env address defaultProtoNetwork defaultProtoUnix protocols =
     (let off = Index address ''://'';
          (network, address') =
            (if off \<ge> 0 then match_protocol address protocols else ([], address))
      in if off \<ge> 0 \<and> length network = 0
         then (network, [],
               Some (errors_New (''unsupported protocol: '' @ take (nat off) address')))
         else (case host_and_port address' of
                 (host, port) \<Rightarrow>
                   classify env network address' host port
                     defaultProtoNetwork defaultProtoUnix))"

section \<open>Listen and ListenPacket\<close>

text \<open>
  A listener is identified by the network and the address it is bound to.
  \<open>net.Listen\<close> returns the Go pair \<open>(lstn, err)\<close>.
\<close>

datatype Listener = Listener string string

datatype PacketConn = PacketConn string string

definition net_Listen :: "env \<Rightarrow> string \<Rightarrow> string \<Rightarrow> Listener option \<times> error option" where
  "net_Listen env network address =
     (case listen_error env network address of
        None \<Rightarrow> (Some (Listener network address), None)
      | Some e \<Rightarrow> (None, Some e))"

definition net_ListenPacket ::
  "env \<Rightarrow> string \<Rightarrow> string \<Rightarrow> PacketConn option \<times> error option" where
  "net_ListenPacket env network address =
     (case listen_packet_error env network address of
        None \<Rightarrow> (Some (PacketConn network address), None)
      | Some e \<Rightarrow> (None, Some e))"

text \<open>
  The loop \<open>for _, address := range addrs\<close> of \<open>Listen\<close> (lines 35 to 39) and of
  \<open>ListenPacket\<close> (lines 63 to 67), which differ in the function they call only:
  \<open>listen\<close> is that function, \<open>r\<close> the pair of results assigned so far, and
  \<open>calls\<close> the calls made so far, each with its network and address.
\<close>

fun try_addrs ::
  "(string \<Rightarrow> string \<Rightarrow> 'l option \<times> error option) \<Rightarrow> string \<Rightarrow> string list \<Rightarrow>
   'l option \<times> error option \<Rightarrow> (string \<times> string) list \<Rightarrow>
   ('l option \<times> error option) \<times> (string \<times> string) list" where
  "try_addrs listen network [] r calls = (r, calls)"
| "try_addrs listen network (address # addrs) r calls =
     (case listen network address of
        (l, None) \<Rightarrow> ((l, None), calls @ [(network, address)])
      | (l, Some e) \<Rightarrow>
          try_addrs listen network addrs (l, Some e) (calls @ [(network, address)]))"

definition Listen_protocols :: "string list" where
  "Listen_protocols = [''tcp4'', ''tcp6'', ''tcp'', ''unixpacket'', ''unix'']"

definition ListenPacket_protocols :: "string list" where
  "ListenPacket_protocols =
     [''udp4'', ''udp6'', ''udp'', ''ip4'', ''ip6'', ''ip'', ''unixdgram'']"

text \<open>
  Both functions return their Go pair, and with it the calls of \<open>net.Listen\<close>
  (of \<open>net.ListenPacket\<close>) they made, in order.
\<close>

definition Listen ::
  "env \<Rightarrow> string \<Rightarrow> (Listener option \<times> error option) \<times> (string \<times> string) list" where
  "Listen env address =
     (case resolveListen env address ''tcp'' ''unix'' Listen_protocols of
        (network, addrs, Some e) \<Rightarrow> ((None, Some e), [])
      | (network, addrs, None) \<Rightarrow>
          try_addrs (net_Listen env) network addrs (None, None) [])"

definition ListenPacket ::
  "env \<Rightarrow> string \<Rightarrow> (PacketConn option \<times> error option) \<times> (string \<times> string) list" where
  "ListenPacket env address =
     (case resolveListen env address ''udp'' ''unixdgram'' ListenPacket_protocols of
        (network, addrs, Some e) \<Rightarrow> ((None, Some e), [])
      | (network, addrs, None) \<Rightarrow>
          try_addrs (net_ListenPacket env) network addrs (None, None) [])"

section \<open>Hosts for the closed instances\<close>

text \<open>
  \<open>host_lo\<close> is a host with a loopback interface \<open>lo\<close> of two addresses and an
  interface \<open>eth1\<close> with no address configured; every socket can be opened on it.
  Its \<open>IsIP\<close> accepts the two loopback addresses, which are the only IP addresses
  among the hosts of the instances below, and nothing else.
  On \<open>host_busy\<close> the first loopback address cannot be bound, on \<open>host_down\<close>
  none can.
\<close>

definition host_lo :: env where
  "host_lo =
     \<lparr> IsIP = (\<lambda>s. s = ''127.0.0.1'' \<or> s = ''::1''),
       interfaceTable =
         Inr [\<lparr> Name = ''lo'', Addrs = Inr [''127.0.0.1'', ''::1''] \<rparr>,
              \<lparr> Name = ''eth1'', Addrs = Inr [] \<rparr>],
       listen_error = (\<lambda>network address. None),
       listen_packet_error = (\<lambda>network address. None) \<rparr>"

definition EADDRINUSE :: error where
  "EADDRINUSE = errors_New ''address already in use''"

definition EACCES :: error where
  "EACCES = errors_New ''permission denied''"

definition host_busy :: env where
  "host_busy =
     host_lo \<lparr> listen_error :=
                 (\<lambda>network address. if address = ''127.0.0.1:80'' then Some EADDRINUSE else None),
               listen_packet_error :=
                 (\<lambda>network address. if address = ''127.0.0.1:80'' then Some EADDRINUSE else None) \<rparr>"

definition host_down :: env where
  "host_down =
     host_lo \<lparr> listen_error :=
                 (\<lambda>network address. if address = ''127.0.0.1:80'' then Some EADDRINUSE else Some EACCES),
               listen_packet_error :=
                 (\<lambda>network address. if address = ''127.0.0.1:80'' then Some EADDRINUSE else Some EACCES) \<rparr>"

section \<open>The server\<close>

text \<open>
  A connection is identified by a number and carries the text of its remote
  address, \<open>conn.RemoteAddr().String()\<close>.
\<close>

record Conn =
  fd :: nat
  RemoteAddr :: string

text \<open>
  What the server writes to a logger is kept unformatted: \<open>Accept_error err backoff\<close>
  is \<open>"Accept error: %v; retrying in %v"\<close> and \<open>Panic_serving addr err buf\<close> is
  \<open>"panic serving %v: %v\n%s"\<close>, each with its arguments.  A logger is identified
  by a name; \<open>None\<close> is the logger of the standard \<open>log\<close> package.  Durations are
  nanoseconds, as \<open>time.Duration\<close> counts them.
\<close>

datatype message =
    Accept_error error nat
  | Panic_serving string string string

datatype effect =
    Printed "string option" message
  | Slept nat

text \<open>
  A call of the handler's \<open>ServeConn\<close> ends in one of two ways: it returns, or it
  panics while the goroutine's stack has a given trace.  \<open>Panics v stack\<close> keeps
  what \<open>recover()\<close> returns for the panic: \<open>Some err\<close> is a value that is not nil
  (kept as its text), and \<open>None\<close> is nil, which is what \<open>recover()\<close> returns for
  \<open>panic(nil)\<close> where the runtime does not replace the nil value (before Go 1.21,
  or with \<open>GODEBUG=panicnil=1\<close>).  The handler sees the connection and the
  context; of the context the model keeps whether it was cancelled when the call
  ended.
\<close>

datatype outcome = Returns | Panics "string option" string

record Server =
  Addr :: string
  Handler :: "Conn \<Rightarrow> bool \<Rightarrow> outcome"
  ErrorLog :: "string option"

definition logf :: "Server \<Rightarrow> message \<Rightarrow> effect list \<Rightarrow> effect list" where
  "logf s msg w =
     (case ErrorLog s of
        None \<Rightarrow> w @ [Printed None msg]
      | Some l \<Rightarrow> w @ [Printed (Some l) msg])"

text \<open>
  The method \<open>recover\<close> of the server: \<open>runtime.Stack\<close> fills a buffer of
  \<open>64 << 10\<close> bytes with the stack trace and returns how many bytes it wrote.
\<close>

definition stack_size :: nat where
  "stack_size = 64 * 2 ^ 10"

definition Server_recover ::
  "Server \<Rightarrow> string \<Rightarrow> string \<Rightarrow> string \<Rightarrow> effect list \<Rightarrow> effect list" where
  "Server_recover s err addr stack w =
     (let buf = take stack_size stack in logf s (Panic_serving addr err buf) w)"

text \<open>The closure \<open>errf\<close> of \<open>Serve\<close> (lines 83 to 85).\<close>

definition errf :: "Server \<Rightarrow> error \<Rightarrow> nat \<Rightarrow> effect list \<Rightarrow> effect list" where
  "errf s err backoff w = logf s (Accept_error err backoff) w"

subsection \<open>Handler and HandlerFunc\<close>

text \<open>
  Whether a Go type satisfies an interface is decided on method sets: the type must
  have every method of the interface, under the same name and with the same
  parameter and result types.  The method sets below are those the source declares:
  the interface \<open>Handler\<close> (lines 38 to 40) and the one method of the type
  \<open>HandlerFunc\<close> (lines 47 to 49).
\<close>

datatype go_type = net_Conn | context_Context

record go_method =
  method_name :: string
  params :: "go_type list"
  results :: "go_type list"

definition Handler_methods :: "go_method list" where
  "Handler_methods =
     [\<lparr> method_name = ''ServeConn'', params = [net_Conn, context_Context], results = [] \<rparr>]"

definition HandlerFunc_methods :: "go_method list" where
  "HandlerFunc_methods =
     [\<lparr> method_name = ''ServeConn'', params = [net_Conn], results = [] \<rparr>]"

definition implements :: "go_method list \<Rightarrow> go_method list \<Rightarrow> bool" where
  "implements T I = list_all (\<lambda>m. m \<in> set T) I"

text \<open>
  The method \<open>ServeConn\<close> of \<open>HandlerFunc\<close>: a Go function may change the world,
  so \<open>f\<close> takes the connection and the world \<open>'w\<close> and returns the new world.
\<close>

definition HandlerFunc_ServeConn :: "(Conn \<Rightarrow> 'w \<Rightarrow> 'w) \<Rightarrow> Conn \<Rightarrow> 'w \<Rightarrow> 'w" where
  "HandlerFunc_ServeConn f c = f c"

subsection \<open>Accept\<close>

text \<open>
  A result of the listener's accept primitive is a connection, an error that the
  operating system reports as temporary, or any other error.  The backoff is the
  state object of the spec's design notes: its floor, its ceiling and the current
  backoff, in nanoseconds.
\<close>

datatype accept_result = Accepted Conn | Temporary error | Fatal error

record backoff =
  backoff_floor :: nat
  backoff_ceiling :: nat
  currentBackoff :: nat

text \<open>
  Modelled from the spec: the function \<open>Accept\<close> that \<open>Serve\<close> calls at line 90 is
  declared in a file of the repository that is not among the sources.  The spec
  (4.3, AcceptLoop) gives its contract: it wraps the listener's accept primitive;
  on a transient error it invokes \<open>onTransientError(error, currentBackoff)\<close>, sleeps
  for \<open>currentBackoff\<close>, then doubles \<open>currentBackoff\<close>, bounded above by a fixed
  ceiling, before it retries; it resets \<open>currentBackoff\<close> to its floor after a
  successful accept; on a fatal error it returns the error at once.

  The listener is the list of the results its accept primitive delivers, in order.
  When the list is exhausted the primitive blocks for ever, and \<open>Accept\<close> does not
  return: the result is \<open>None\<close>.  Otherwise \<open>Accept\<close> returns the connection or the
  fatal error, what is left of the listener, the backoff, and the effects, to which
  it adds the calls of \<open>onTransientError\<close> and the sleeps, in order.
\<close>

fun Accept ::
  "accept_result list \<Rightarrow> (error \<Rightarrow> nat \<Rightarrow> effect list \<Rightarrow> effect list) \<Rightarrow> backoff \<Rightarrow>
   effect list \<Rightarrow> ((error + Conn) \<times> accept_result list \<times> backoff \<times> effect list) option" where
  "Accept [] onTransientError b w = None"
| "Accept (Accepted c # lstn) onTransientError b w =
     Some (Inr c, lstn, b\<lparr>currentBackoff := backoff_floor b\<rparr>, w)"
| "Accept (Fatal err # lstn) onTransientError b w = Some (Inl err, lstn, b, w)"
| "Accept (Temporary err # lstn) onTransientError b w =
     Accept lstn onTransientError
       (b\<lparr>currentBackoff := min (2 * currentBackoff b) (backoff_ceiling b)\<rparr>)
       (onTransientError err (currentBackoff b) w @ [Slept (currentBackoff b)])"

text \<open>
  The backoff in force at the failure number \<open>i\<close> of a run of failures that starts
  at the floor.
\<close>

primrec delay :: "backoff \<Rightarrow> nat \<Rightarrow> nat" where
  "delay b 0 = backoff_floor b"
| "delay b (Suc i) = min (2 * delay b i) (backoff_ceiling b)"

text \<open>The spec's example: a floor of 5 milliseconds and a ceiling of 1 second.\<close>

definition example_backoff :: backoff where
  "example_backoff =
     \<lparr> backoff_floor = 5000000, backoff_ceiling = 1000000000, currentBackoff = 5000000 \<rparr>"

subsection \<open>Serve and its goroutines, step by step\<close>

text \<open>
  \<open>Serve\<close> runs on one task and starts one goroutine per accepted connection, so
  the program is modelled as a machine that takes one step of one task at a time,
  in any order: a theorem about every list of events is a theorem about every
  interleaving.

  The task of \<open>Serve\<close> is either in its loop, at the call of \<open>Accept\<close> (line 90),
  or past the \<open>return\<close> of line 91 with the error \<open>err\<close>, where its deferred calls
  run last in, first out: \<open>cancel()\<close>, then \<open>join.Wait()\<close>, then
  \<open>lstn.Close()\<close>; after them \<open>Serve\<close> has returned \<open>err\<close> to its caller.
\<close>

datatype Serve_pc =
    Accepting
  | Deferred_cancel error
  | Deferred_Wait error
  | Deferred_Close error
  | Returned error

text \<open>
  A goroutine running \<open>serve\<close> (lines 99 to 108) is in the handler, or runs its
  deferred calls, last in, first out: \<open>conn.Close()\<close>, then \<open>join.Done()\<close>,
  then the closure that calls \<open>recover()\<close>; then the goroutine ends.
\<close>

datatype serve_pc =
    Handling
  | Deferred_conn_Close
  | Deferred_join_Done
  | Deferred_recover
  | Goroutine_end
  | Exited

text \<open>
  Of a goroutine the model keeps the connection, the argument \<open>addr\<close> of the
  deferred closure (evaluated when the \<open>defer\<close> statement runs, before the
  handler is called), how the handler's call ended once it has, and whether a
  panic is unwinding the goroutine.
\<close>

record task =
  conn :: Conn
  addr :: string
  at :: serve_pc
  ended :: "outcome option"
  panicking :: bool

text \<open>
  The state of the program: where \<open>Serve\<close> is, whether the listener is closed and
  the context cancelled, the counter of the wait group \<open>join\<close>, the goroutines in
  the order they were started, the connections closed so far, what was printed,
  and whether a panic has reached the top of a goroutine's stack, which ends the
  whole program.
\<close>

record state =
  pc :: Serve_pc
  lstn_closed :: bool
  cancelled :: bool
  join :: int
  tasks :: "task list"
  closed :: "Conn list"
  printed :: "effect list"
  crashed :: bool





text \<open>
  The built-in \<open>recover()\<close>, called by a deferred function: when a panic is
  unwinding the goroutine it returns the panic's value and stops the panic;
  otherwise it returns nil.  \<open>runtime_Stack\<close> is the trace that \<open>runtime.Stack\<close>
  writes for the goroutine while its deferred closure runs.
\<close>

definition recover :: "task \<Rightarrow> string option \<times> task" where
  "recover t =
     (if panicking t
      then (case ended t of Some (Panics v stack) \<Rightarrow> v | _ \<Rightarrow> None, t\<lparr>panicking := False\<rparr>)
      else (None, t))"

definition runtime_Stack :: "task \<Rightarrow> string" where
  "runtime_Stack t = (case ended t of Some (Panics v stack) \<Rightarrow> stack | _ \<Rightarrow> [])"

text \<open>
  One step of the goroutine \<open>t\<close> running \<open>serve\<close>, which returns the goroutine
  and the state after the step.  The closure deferred first (lines 100 to 104) runs
  last: it calls \<open>recover()\<close>, and only when the value returned is not nil does it
  call the method \<open>recover\<close> of the server, which logs the value.  A panic that is
  still unwinding when the goroutine has no deferred call left ends the program.
\<close>

definition serve :: "Server \<Rightarrow> task \<Rightarrow> state \<Rightarrow> (task \<times> state) option" where
  "serve srv t s =
     (case at t of
        Handling \<Rightarrow>
          (case Handler srv (conn t) (cancelled s) of
             Returns \<Rightarrow> Some (t\<lparr>at := Deferred_conn_Close, ended := Some Returns\<rparr>, s)
           | Panics v stack \<Rightarrow>
               Some (t\<lparr>at := Deferred_conn_Close, ended := Some (Panics v stack),
                       panicking := True\<rparr>, s))
      | Deferred_conn_Close \<Rightarrow>
          Some (t\<lparr>at := Deferred_join_Done\<rparr>, s\<lparr>closed := closed s @ [conn t]\<rparr>)
      | Deferred_join_Done \<Rightarrow>
          Some (t\<lparr>at := Deferred_recover\<rparr>, s\<lparr>join := join s - 1\<rparr>)
      | Deferred_recover \<Rightarrow>
          (case recover t of
             (Some err, t') \<Rightarrow>
               Some (t'\<lparr>at := Goroutine_end\<rparr>,
                     s\<lparr>printed :=
                         Server_recover srv err (addr t) (runtime_Stack t) (printed s)\<rparr>)
           | (None, t') \<Rightarrow> Some (t'\<lparr>at := Goroutine_end\<rparr>, s))
      | Goroutine_end \<Rightarrow>
          Some (t\<lparr>at := Exited\<rparr>, if panicking t then s\<lparr>crashed := True\<rparr> else s)
      | Exited \<Rightarrow> None)"



text \<open>
  A goroutine is in flight until it has called \<open>join.Done()\<close>.
\<close>

definition in_flight :: "task \<Rightarrow> bool" where
  "in_flight t = (at t = Handling \<or> at t = Deferred_conn_Close \<or> at t = Deferred_join_Done)"




subsection \<open>Invariants of the machine\<close>

text \<open>
  What holds of a goroutine in every reachable state: the deferred closure got the
  remote address of its connection; the handler's call has ended exactly when the
  goroutine is past it; a panic unwinds only after a handler that panicked, and
  until the deferred closure has recovered it; the connection is closed once
  \<open>conn.Close()\<close> has run; and the panic has been printed once the closure has run,
  if its value is not nil.
\<close>

definition task_inv :: "Server \<Rightarrow> state \<Rightarrow> task \<Rightarrow> bool" where
  "task_inv srv s t =
     (addr t = RemoteAddr (conn t)
      \<and> (at t = Handling \<longrightarrow> ended t = None \<and> \<not> panicking t)
      \<and> (at t \<noteq> Handling \<longrightarrow> ended t \<noteq> None)
      \<and> (panicking t \<longrightarrow> (\<exists>v stack. ended t = Some (Panics v stack)))
      \<and> (at t = Goroutine_end \<or> at t = Exited \<longrightarrow> \<not> panicking t)
      \<and> (\<forall>v stack. ended t = Some (Panics v stack) \<and> at t \<noteq> Goroutine_end \<and> at t \<noteq> Exited \<longrightarrow>
            panicking t)
      \<and> (\<not> in_flight t \<or> at t = Deferred_join_Done \<longrightarrow> conn t \<in> set (closed s))
      \<and> (\<forall>err stack. ended t = Some (Panics (Some err) stack)
                       \<and> (at t = Goroutine_end \<or> at t = Exited) \<longrightarrow>
            Printed (ErrorLog srv) (Panic_serving (RemoteAddr (conn t)) err (take stack_size stack))
              \<in> set (printed s)))"





subsection \<open>A server for the closed instances\<close>

text \<open>
  The handler panics with the value \<open>boom\<close> on the connection number 1, with nil
  on the connection number 3, and returns on every other one.
\<close>

definition a_panicking_handler :: Server where
  "a_panicking_handler =
     \<lparr> Addr = ''127.0.0.1:9000'',
       Handler = (\<lambda>c ctx_done.
                    if fd c = 1 then Panics (Some ''boom'') ''goroutine 7 [running]''
                    else if fd c = 3 then Panics None ''goroutine 9 [running]''
                    else Returns),
       ErrorLog = None \<rparr>"

definition conn1 :: Conn where
  "conn1 = \<lparr> fd = 1, RemoteAddr = ''10.0.0.1:4711'' \<rparr>"



definition EBADF :: error where
  "EBADF = errors_New ''use of closed network connection''"






section \<open>Properties of the resolver\<close>

subsection \<open>Substring search\<close>

lemma Index_found:
  "0 \<le> Index s sub \<Longrightarrow> HasPrefix (drop (nat (Index s sub)) s) sub"
proof (induction s)
  case Nil
  then show ?case by (auto simp: HasPrefix_def split: if_splits)
next
  case (Cons c s)
  show ?case
  proof (cases "HasPrefix (c # s) sub")
    case True
    then show ?thesis by simp
  next
    case False
    with Cons.prems have nn: "0 \<le> Index s sub"
      by (auto simp: Let_def split: if_splits)
    with False have "Index (c # s) sub = Index s sub + 1"
      by (auto simp: Let_def)
    moreover have "nat (Index s sub + 1) = Suc (nat (Index s sub))"
      using nn by simp
    ultimately show ?thesis using Cons.IH [OF nn] by simp
  qed
qed

lemma Index_least:
  "HasPrefix (drop j s) sub \<Longrightarrow> j \<le> length s \<Longrightarrow> 0 \<le> Index s sub \<and> Index s sub \<le> int j"
proof (induction s arbitrary: j)
  case Nil
  then show ?case by (auto simp: HasPrefix_def)
next
  case (Cons c s)
  show ?case
  proof (cases "HasPrefix (c # s) sub")
    case True
    then show ?thesis by simp
  next
    case False
    with Cons.prems obtain j' where j: "j = Suc j'"
      by (cases j) auto
    with Cons.prems have "HasPrefix (drop j' s) sub" "j' \<le> length s" by auto
    from Cons.IH [OF this] False j show ?thesis by (auto simp: Let_def)
  qed
qed

lemma HasPrefix_decomp: "HasPrefix s p \<Longrightarrow> s = p @ drop (length p) s"
  unfolding HasPrefix_def by (metis append_take_drop_id)

text \<open>
  A separator \<open>://\<close> cannot start inside a name free of it and end in the separator
  that follows the name.
\<close>

lemma scheme_overlap:
  "q \<noteq> [] \<Longrightarrow> \<not> HasPrefix q ''://'' \<Longrightarrow> \<not> HasPrefix (q @ ''://'' @ rest) ''://''"
  apply (cases q; simp add: HasPrefix_def)
  subgoal for a q1
    apply (cases q1; simp)
    subgoal for b q2
      by (cases q2; simp)
    done
  done

subsection \<open>The scheme prefix\<close>

lemma no_protocol_prefix:
  assumes off: "0 \<le> Index address ''://''"
    and notin: "take (nat (Index address ''://'')) address \<notin> set protocols"
    and p: "p \<in> set protocols" and wf: "Index p ''://'' < 0"
  shows "\<not> HasPrefix address (p @ ''://'')"
proof
  assume pre: "HasPrefix address (p @ ''://'')"
  define rest where "rest = drop (length (p @ ''://'')) address"
  define off where "off = nat (Index address ''://'')"
  have addr: "address = p @ ''://'' @ rest"
    using HasPrefix_decomp [OF pre] by (simp add: rest_def)
  have "HasPrefix (drop (length p) address) ''://''"
    by (subst addr) (simp add: HasPrefix_def)
  moreover have "length p \<le> length address"
    by (subst addr) simp
  ultimately have le: "Index address ''://'' \<le> int (length p)"
    using Index_least by blast
  then have off_le: "off \<le> length p" by (simp add: off_def)
  have found: "HasPrefix (drop off address) ''://''"
    unfolding off_def by (rule Index_found [OF off])
  show False
  proof (cases "off = length p")
    case True
    have "take off address = p" by (subst addr) (simp add: True)
    with notin p show False by (simp add: off_def)
  next
    case False
    with off_le have lt: "off < length p" by simp
    define q where "q = drop off p"
    have q: "q \<noteq> []" using lt by (simp add: q_def)
    have "\<not> HasPrefix q ''://''"
    proof
      assume "HasPrefix q ''://''"
      then have "0 \<le> Index p ''://''"
        using Index_least [of off p "''://''"] off_le by (simp add: q_def)
      with wf show False by simp
    qed
    then have "\<not> HasPrefix (q @ ''://'' @ rest) ''://''"
      by (rule scheme_overlap [OF q])
    moreover have "drop off address = q @ ''://'' @ rest"
      by (subst addr) (simp add: q_def off_le)
    ultimately show False using found by simp
  qed
qed

lemma match_protocol_none:
  "\<forall>p\<in>set protocols. \<not> HasPrefix address (p @ ''://'') \<Longrightarrow>
   match_protocol address protocols = ([], address)"
  by (induction protocols) auto

text \<open>
  C5.  An address that contains \<open>://\<close> carries the scheme in front of its first
  \<open>://\<close>.  When that scheme is not one of the protocols the caller allows,
  \<open>resolveListen\<close> returns the error \<open>unsupported protocol: <scheme>\<close> with an
  empty network and no target at all: it returns before the host is looked at.
  The protocols are names, free of \<open>://\<close>, as those of \<open>Listen\<close> and
  \<open>ListenPacket\<close> are.
\<close>

theorem unsupported_protocol_fails:
  assumes "0 \<le> Index address ''://''"
    and "take (nat (Index address ''://'')) address \<notin> set protocols"
    and "\<forall>p\<in>set protocols. Index p ''://'' < 0"
  shows "resolveListen env address defaultProtoNetwork defaultProtoUnix protocols =
           ([], [], Some (errors_New (''unsupported protocol: ''
                                      @ take (nat (Index address ''://'')) address)))"
proof -
  have "\<forall>p\<in>set protocols. \<not> HasPrefix address (p @ ''://'')"
    using assms no_protocol_prefix by blast
  then have "match_protocol address protocols = ([], address)"
    by (rule match_protocol_none)
  with assms(1) show ?thesis
    by (simp add: resolveListen_def Let_def)
qed

theorem unsupported_protocol_fails_witness:
  "0 \<le> Index ''xyz://host:1'' ''://''
   \<and> take (nat (Index ''xyz://host:1'' ''://'')) ''xyz://host:1'' = ''xyz''
   \<and> ''xyz'' \<notin> set Listen_protocols
   \<and> list_all (\<lambda>p. Index p ''://'' < 0) Listen_protocols
   \<and> list_all (\<lambda>p. Index p ''://'' < 0) ListenPacket_protocols
   \<and> resolveListen host_lo ''xyz://host:1'' ''tcp'' ''unix'' Listen_protocols =
       ([], [], Some (errorString ''unsupported protocol: xyz''))"
proof -
  have i: "Index ''xyz://host:1'' ''://'' = 3"
    by (simp add: HasPrefix_def)
  have t: "take (nat (Index ''xyz://host:1'' ''://'')) ''xyz://host:1'' = ''xyz''"
    unfolding i by simp
  have n: "''xyz'' \<notin> set Listen_protocols"
    by (simp add: Listen_protocols_def)
  have w: "\<forall>p\<in>set Listen_protocols. Index p ''://'' < 0"
    by (simp add: Listen_protocols_def HasPrefix_def)
  have nn: "0 \<le> Index ''xyz://host:1'' ''://''" unfolding i by simp
  have "resolveListen host_lo ''xyz://host:1'' ''tcp'' ''unix'' Listen_protocols =
          ([], [], Some (errors_New (''unsupported protocol: ''
              @ take (nat (Index ''xyz://host:1'' ''://'')) ''xyz://host:1'')))"
    using nn n w unfolding t [symmetric] by (rule unsupported_protocol_fails)
  then have r: "resolveListen host_lo ''xyz://host:1'' ''tcp'' ''unix'' Listen_protocols =
       ([], [], Some (errorString ''unsupported protocol: xyz''))"
    unfolding t errors_New_def by simp
  from w have l: "list_all (\<lambda>p. Index p ''://'' < 0) Listen_protocols"
    unfolding list_all_iff .
  have l': "list_all (\<lambda>p. Index p ''://'' < 0) ListenPacket_protocols"
    by (simp add: ListenPacket_protocols_def HasPrefix_def)
  from nn t n l l' r show ?thesis by (intro conjI)
qed

subsection \<open>Closed evaluations on the example hosts\<close>

lemma IsIP_host_lo: "IsIP host_lo s = (s = ''127.0.0.1'' \<or> s = ''::1'')"
  by (simp add: host_lo_def)

lemma interfaceTable_host_lo:
  "interfaceTable host_lo =
     Inr [\<lparr> Name = ''lo'', Addrs = Inr [''127.0.0.1'', ''::1''] \<rparr>,
          \<lparr> Name = ''eth1'', Addrs = Inr [] \<rparr>]"
  by (simp add: host_lo_def)

lemma Index_9000: "Index '':9000'' ''://'' = - 1"
  by (simp add: HasPrefix_def)

lemma SplitHostPort_9000: "SplitHostPort '':9000'' = ([], ''9000'', None)"
  by (simp add: SplitHostPort_def LastIndexByte_def SplitHostPort_tail_def Let_def)

lemma host_and_port_9000: "host_and_port '':9000'' = ([], ''9000'')"
  by (simp add: host_and_port_def SplitHostPort_9000)

lemma SplitHostPort_eth1: "SplitHostPort ''eth1:80'' = (''eth1'', ''80'', None)"
  by (simp add: SplitHostPort_def LastIndexByte_def SplitHostPort_tail_def Let_def)

lemma SplitHostPort_lo: "SplitHostPort ''lo:80'' = (''lo'', ''80'', None)"
  by (simp add: SplitHostPort_def LastIndexByte_def SplitHostPort_tail_def Let_def)

lemma InterfaceByName_lo:
  "InterfaceByName host_lo ''lo'' = Inr \<lparr> Name = ''lo'', Addrs = Inr [''127.0.0.1'', ''::1''] \<rparr>"
  by (simp add: InterfaceByName_def interfaceTable_host_lo)

lemma Index_lo_80: "Index ''lo:80'' ''://'' < 0"
  by (simp add: HasPrefix_def)

lemma resolve_lo_80:
  assumes "IsIP env = IsIP host_lo" and "interfaceTable env = interfaceTable host_lo"
  shows "resolveListen env ''lo:80'' defaultProtoNetwork defaultProtoUnix protocols
           = (defaultProtoNetwork, [''127.0.0.1:80'', ''[::1]:80''], None)"
proof -
  have h: "host_and_port ''lo:80'' = (''lo'', ''80'')"
    by (simp add: host_and_port_def SplitHostPort_lo)
  have n: "InterfaceByName env ''lo''
             = Inr \<lparr> Name = ''lo'', Addrs = Inr [''127.0.0.1'', ''::1''] \<rparr>"
    by (simp add: InterfaceByName_def assms(2) interfaceTable_host_lo)
  have c: "classify env [] ''lo:80'' ''lo'' ''80'' defaultProtoNetwork defaultProtoUnix
             = (defaultProtoNetwork, [''127.0.0.1:80'', ''[::1]:80''], None)"
    by (simp add: classify_def assms(1) IsIP_host_lo n JoinHostPort_def)
  from Index_lo_80 show ?thesis
    unfolding resolveListen_def by (simp add: h c Let_def)
qed

lemma resolve_busy:
  "resolveListen host_busy ''lo:80'' defaultProtoNetwork defaultProtoUnix protocols
     = (defaultProtoNetwork, [''127.0.0.1:80'', ''[::1]:80''], None)"
  by (rule resolve_lo_80) (simp_all add: host_busy_def)

lemma resolve_down:
  "resolveListen host_down ''lo:80'' defaultProtoNetwork defaultProtoUnix protocols
     = (defaultProtoNetwork, [''127.0.0.1:80'', ''[::1]:80''], None)"
  by (rule resolve_lo_80) (simp_all add: host_down_def)

lemma resolve_tcp6_loopback:
  "resolveListen host_lo ''tcp6://[::1]:0'' ''tcp'' ''unix'' Listen_protocols
     = (''tcp6'', [''[::1]:0''], None)"
proof -
  have i: "Index ''tcp6://[::1]:0'' ''://'' = 4"
    by (simp add: HasPrefix_def)
  have m: "match_protocol ''tcp6://[::1]:0'' Listen_protocols = (''tcp6'', ''[::1]:0'')"
    by (simp add: Listen_protocols_def HasPrefix_def)
  have s: "SplitHostPort ''[::1]:0'' = (''::1'', ''0'', None)"
    by (simp add: SplitHostPort_def LastIndexByte_def SplitHostPort_tail_def Let_def)
  have h: "host_and_port ''[::1]:0'' = (''::1'', ''0'')"
    by (simp add: host_and_port_def s)
  have c: "classify host_lo ''tcp6'' ''[::1]:0'' ''::1'' ''0'' ''tcp'' ''unix''
             = (''tcp6'', [''[::1]:0''], None)"
    by (simp add: classify_def IsIP_host_lo)
  show ?thesis
    unfolding resolveListen_def i by (simp add: m h c)
qed

subsection \<open>The protocol of a successful resolution\<close>

lemma match_protocol_some:
  "match_protocol address protocols = (network, address') \<Longrightarrow> network \<noteq> [] \<Longrightarrow>
   network \<in> set protocols \<and> HasPrefix address (network @ ''://'')
   \<and> address' = drop (length network + 3) address"
  by (induction protocols) (auto split: if_splits)

lemma classify_success:
  "classify env network address host port defaultProtoNetwork defaultProtoUnix = (network', addrs, None)
   \<Longrightarrow> network' = (if network = [] then defaultProtoNetwork else network)"
  by (auto simp: classify_def split: if_splits sum.splits)

text \<open>
  C10.  When \<open>resolveListen\<close> returns no error and the caller's two default
  protocols are names (not the empty string, as \<open>tcp\<close>, \<open>unix\<close>, \<open>udp\<close> and
  \<open>unixdgram\<close> are), the network it returns is not empty, and it is either a
  protocol of the caller's list that the address carries as its scheme prefix, or
  one of the two defaults.
\<close>

theorem resolved_protocol:
  assumes ok: "resolveListen env address defaultProtoNetwork defaultProtoUnix protocols
                 = (network, addrs, None)"
    and dn: "defaultProtoNetwork \<noteq> []" and du: "defaultProtoUnix \<noteq> []"
  shows "network \<noteq> []
         \<and> (network \<in> set protocols \<and> HasPrefix address (network @ ''://'')
            \<or> network = defaultProtoNetwork \<or> network = defaultProtoUnix)"
proof (cases "0 \<le> Index address ''://''")
  case True
  obtain fixed rest where m: "match_protocol address protocols = (fixed, rest)"
    by (cases "match_protocol address protocols")
  obtain host port where hp: "host_and_port rest = (host, port)"
    by (cases "host_and_port rest")
  from ok True m hp have fixed: "fixed \<noteq> []"
    and c: "classify env fixed rest host port defaultProtoNetwork defaultProtoUnix
              = (network, addrs, None)"
    by (auto simp: resolveListen_def Let_def split: if_splits)
  from classify_success [OF c] fixed have "network = fixed" by simp
  with match_protocol_some [OF m fixed] fixed show ?thesis by simp
next
  case False
  obtain host port where hp: "host_and_port address = (host, port)"
    by (cases "host_and_port address")
  from ok False hp
  have "classify env [] address host port defaultProtoNetwork defaultProtoUnix
          = (network, addrs, None)"
    by (auto simp: resolveListen_def Let_def split: if_splits)
  from classify_success [OF this] dn show ?thesis by simp
qed

theorem resolved_protocol_witness:
  "resolveListen host_lo ''tcp6://[::1]:0'' ''tcp'' ''unix'' Listen_protocols
     = (''tcp6'', [''[::1]:0''], None)
   \<and> ''tcp'' \<noteq> [] \<and> ''unix'' \<noteq> []
   \<and> ''tcp6'' \<in> set Listen_protocols \<and> HasPrefix ''tcp6://[::1]:0'' (''tcp6'' @ ''://'')"
proof -
  have dn: "''tcp'' \<noteq> []" and du: "''unix'' \<noteq> []" by simp_all
  have "''tcp6'' \<noteq> ''tcp''" and "''tcp6'' \<noteq> ''unix''" by simp_all
  with resolved_protocol [OF resolve_tcp6_loopback dn du]
  have "''tcp6'' \<in> set Listen_protocols \<and> HasPrefix ''tcp6://[::1]:0'' (''tcp6'' @ ''://'')"
    by blast
  with resolve_tcp6_loopback dn du show ?thesis by (intro conjI) simp_all
qed

subsection \<open>An address that is a port only\<close>

text \<open>
  C1.  What the function does with \<open>:9000\<close>, on every host on which the empty
  string is not an IP address for \<open>IsIP\<close>: the split gives the empty host and the
  port \<open>9000\<close>; the empty host is not an IP address, and \<open>net.InterfaceByName\<close>
  refuses the empty name, so the last branch is taken.  The result carries the
  unix default and not the stream default, and the error of the interface lookup is
  still set on return, so \<open>Listen\<close> returns that error without a call to
  \<open>net.Listen\<close>.
\<close>

theorem port_only_address:
  assumes "\<not> IsIP env []"
  shows "resolveListen env '':9000'' ''tcp'' ''unix'' Listen_protocols
           = (''unix'', ['':9000''], Some (route_error errInvalidInterfaceName))
         \<and> Listen env '':9000'' = ((None, Some (route_error errInvalidInterfaceName)), [])"
proof -
  have c: "classify env [] '':9000'' [] ''9000'' ''tcp'' ''unix''
          = (''unix'', ['':9000''], Some (route_error errInvalidInterfaceName))"
    using assms by (simp add: classify_def InterfaceByName_def)
  have r: "resolveListen env '':9000'' ''tcp'' ''unix'' Listen_protocols
           = (''unix'', ['':9000''], Some (route_error errInvalidInterfaceName))"
    unfolding resolveListen_def Index_9000 by (simp add: host_and_port_9000 c)
  show ?thesis by (simp add: r Listen_def)
qed

theorem port_only_address_witness:
  "\<not> IsIP host_lo []
   \<and> resolveListen host_lo '':9000'' ''tcp'' ''unix'' Listen_protocols
       = (''unix'', ['':9000''],
          Some (OpError ''route'' ''ip+net'' (errorString ''invalid network interface name'')))
   \<and> Listen host_lo '':9000''
       = ((None, Some (OpError ''route'' ''ip+net''
                        (errorString ''invalid network interface name''))), [])"
proof -
  have n: "\<not> IsIP host_lo []" by (simp add: IsIP_host_lo)
  from port_only_address [OF n] n show ?thesis
    unfolding route_error_def errInvalidInterfaceName_def errors_New_def by simp
qed

subsection \<open>An interface without addresses\<close>

text \<open>
  C8.  The interface \<open>eth1\<close> of \<open>host_lo\<close> has no address configured:
  \<open>resolveListen\<close> returns no error and no target, and \<open>Listen\<close> returns neither
  a listener nor an error, without a call to \<open>net.Listen\<close>.
\<close>

theorem interface_without_address:
  "resolveListen host_lo ''eth1:80'' ''tcp'' ''unix'' Listen_protocols = (''tcp'', [], None)
   \<and> Listen host_lo ''eth1:80'' = ((None, None), [])"
proof -
  have i: "Index ''eth1:80'' ''://'' = - 1"
    by (simp add: HasPrefix_def)
  have h: "host_and_port ''eth1:80'' = (''eth1'', ''80'')"
    by (simp add: host_and_port_def SplitHostPort_eth1)
  have n: "InterfaceByName host_lo ''eth1'' = Inr \<lparr> Name = ''eth1'', Addrs = Inr [] \<rparr>"
    by (simp add: InterfaceByName_def interfaceTable_host_lo)
  have c: "classify host_lo [] ''eth1:80'' ''eth1'' ''80'' ''tcp'' ''unix'' = (''tcp'', [], None)"
    by (simp add: classify_def IsIP_host_lo n)
  have r: "resolveListen host_lo ''eth1:80'' ''tcp'' ''unix'' Listen_protocols = (''tcp'', [], None)"
    unfolding resolveListen_def i by (simp add: h c)
  show ?thesis by (simp add: r Listen_def)
qed

subsection \<open>The targets of an interface\<close>

text \<open>
  C6.  The address is either free of \<open>://\<close> (then no protocol is fixed and \<open>rest\<close>
  is the address itself) or starts with a protocol of the caller's list, which is
  fixed, and \<open>rest\<close> is what follows the prefix.  When the host component of
  \<open>rest\<close> is not an IP address and names an interface whose addresses \<open>ifa\<close> can
  be listed, the resolution returns no error and one target per address of \<open>ifa\<close>,
  in the order of \<open>ifa\<close>: the address itself when no port was given, and the address
  joined with the port otherwise.  The network is the fixed protocol, or the stream
  default when none was fixed.
\<close>

theorem interface_targets:
  assumes scheme:
      "Index address ''://'' < 0 \<and> fixed = [] \<and> rest = address
       \<or> 0 \<le> Index address ''://'' \<and> match_protocol address protocols = (fixed, rest)
          \<and> fixed \<noteq> []"
    and hp: "host_and_port rest = (host, port)"
    and ip: "\<not> IsIP env host"
    and ifi: "InterfaceByName env host = Inr ifi"
    and ifa: "Addrs ifi = Inr ifa"
  shows "resolveListen env address defaultProtoNetwork defaultProtoUnix protocols =
           (if fixed = [] then defaultProtoNetwork else fixed,
            map (\<lambda>a. if port = [] then a else JoinHostPort a port) ifa,
            None)"
proof -
  have c: "classify env fixed rest host port defaultProtoNetwork defaultProtoUnix =
           (if fixed = [] then defaultProtoNetwork else fixed,
            map (\<lambda>a. if port = [] then a else JoinHostPort a port) ifa,
            None)"
    using ip ifi ifa by (simp add: classify_def)
  from scheme show ?thesis
  proof
    assume "Index address ''://'' < 0 \<and> fixed = [] \<and> rest = address"
    with hp c show ?thesis by (simp add: resolveListen_def Let_def)
  next
    assume "0 \<le> Index address ''://'' \<and> match_protocol address protocols = (fixed, rest)
            \<and> fixed \<noteq> []"
    with hp c show ?thesis by (simp add: resolveListen_def Let_def)
  qed
qed

theorem interface_targets_witness:
  "Index ''lo:80'' ''://'' < 0
   \<and> host_and_port ''lo:80'' = (''lo'', ''80'')
   \<and> \<not> IsIP host_lo ''lo''
   \<and> InterfaceByName host_lo ''lo''
       = Inr \<lparr> Name = ''lo'', Addrs = Inr [''127.0.0.1'', ''::1''] \<rparr>
   \<and> resolveListen host_lo ''lo:80'' ''tcp'' ''unix'' Listen_protocols
       = (''tcp'', [''127.0.0.1:80'', ''[::1]:80''], None)
   \<and> 0 \<le> Index ''tcp4://lo:80'' ''://''
   \<and> match_protocol ''tcp4://lo:80'' Listen_protocols = (''tcp4'', ''lo:80'')
   \<and> resolveListen host_lo ''tcp4://lo:80'' ''tcp'' ''unix'' Listen_protocols
       = (''tcp4'', [''127.0.0.1:80'', ''[::1]:80''], None)"
proof -
  have i: "Index ''lo:80'' ''://'' < 0"
    by (simp add: HasPrefix_def)
  have h: "host_and_port ''lo:80'' = (''lo'', ''80'')"
    by (simp add: host_and_port_def SplitHostPort_lo)
  have n: "\<not> IsIP host_lo ''lo''"
    by (simp add: IsIP_host_lo)
  have a: "Addrs \<lparr> Name = ''lo'', Addrs = Inr [''127.0.0.1'', ''::1''] \<rparr>
             = Inr [''127.0.0.1'', ''::1'']"
    by simp
  have s: "Index ''lo:80'' ''://'' < 0 \<and> [] = ([]::string) \<and> ''lo:80'' = ''lo:80''
           \<or> 0 \<le> Index ''lo:80'' ''://''
              \<and> match_protocol ''lo:80'' Listen_protocols = ([], ''lo:80'') \<and> [] \<noteq> ([]::string)"
    using i by simp
  have 1: "resolveListen host_lo ''lo:80'' ''tcp'' ''unix'' Listen_protocols
       = (''tcp'', [''127.0.0.1:80'', ''[::1]:80''], None)"
    using interface_targets [OF s h n InterfaceByName_lo a, of "''tcp''" "''unix''"]
    by (simp add: JoinHostPort_def)
  have i': "0 \<le> Index ''tcp4://lo:80'' ''://''"
    by (simp add: HasPrefix_def)
  have m: "match_protocol ''tcp4://lo:80'' Listen_protocols = (''tcp4'', ''lo:80'')"
    by (simp add: Listen_protocols_def HasPrefix_def)
  have s': "Index ''tcp4://lo:80'' ''://'' < 0 \<and> ''tcp4'' = [] \<and> ''lo:80'' = ''tcp4://lo:80''
           \<or> 0 \<le> Index ''tcp4://lo:80'' ''://''
              \<and> match_protocol ''tcp4://lo:80'' Listen_protocols = (''tcp4'', ''lo:80'')
              \<and> ''tcp4'' \<noteq> []"
    using i' m by simp
  have 2: "resolveListen host_lo ''tcp4://lo:80'' ''tcp'' ''unix'' Listen_protocols
       = (''tcp4'', [''127.0.0.1:80'', ''[::1]:80''], None)"
    using interface_targets [OF s' h n InterfaceByName_lo a, of "''tcp''" "''unix''"]
    by (simp add: JoinHostPort_def)
  from i h n InterfaceByName_lo 1 i' m 2 show ?thesis by (intro conjI)
qed

subsection \<open>The loop over the targets\<close>

lemma try_addrs_first_success:
  "\<forall>x\<in>set pre. snd (listen network x) \<noteq> None \<Longrightarrow> listen network a = (l, None) \<Longrightarrow>
   try_addrs listen network (pre @ a # post) r calls
     = ((l, None), calls @ map (Pair network) (pre @ [a]))"
proof (induction pre arbitrary: r calls)
  case Nil
  then show ?case by simp
next
  case (Cons x pre)
  obtain l' e where "listen network x = (l', Some e)"
    using Cons.prems(1) by (cases "listen network x") auto
  with Cons show ?case by simp
qed

lemma try_addrs_all_fail:
  "addrs \<noteq> [] \<Longrightarrow> \<forall>x\<in>set addrs. snd (listen network x) \<noteq> None \<Longrightarrow>
   try_addrs listen network addrs r calls
     = (listen network (last addrs), calls @ map (Pair network) addrs)"
proof (induction addrs arbitrary: r calls)
  case Nil
  then show ?case by simp
next
  case (Cons x addrs)
  obtain l' e where x: "listen network x = (l', Some e)"
    using Cons.prems(2) by (cases "listen network x") auto
  show ?case
  proof (cases "addrs = []")
    case True
    with x show ?thesis by simp
  next
    case False
    with Cons x show ?thesis by simp
  qed
qed

lemma net_Listen_last:
  "listen_error env network x \<noteq> None \<Longrightarrow>
   net_Listen env network x = (None, listen_error env network x)"
  by (auto simp add: net_Listen_def split: option.splits)

lemma net_ListenPacket_last:
  "listen_packet_error env network x \<noteq> None \<Longrightarrow>
   net_ListenPacket env network x = (None, listen_packet_error env network x)"
  by (auto simp add: net_ListenPacket_def split: option.splits)

text \<open>
  C7.  After a successful resolution, \<open>Listen\<close> calls \<open>net.Listen\<close> on the
  targets in their order.  When the targets \<open>pre\<close> all fail and the next target
  \<open>a\<close> can be opened, the result is the listener bound to \<open>a\<close>, with no error, and
  the calls made are those for \<open>pre\<close> and for \<open>a\<close>, in this order: no later target
  is tried.  When every target fails (and there is one), the result is the error of
  the last target, and every target was tried once, in order.  \<open>ListenPacket\<close> does
  the same with \<open>net.ListenPacket\<close>.
\<close>

theorem first_listener_or_last_error:
  "(resolveListen env address ''tcp'' ''unix'' Listen_protocols = (network, addrs, None) \<longrightarrow>
      (addrs = pre @ a # post \<and> (\<forall>x\<in>set pre. listen_error env network x \<noteq> None)
         \<and> listen_error env network a = None \<longrightarrow>
       Listen env address
         = ((Some (Listener network a), None), map (Pair network) (pre @ [a])))
      \<and> (addrs \<noteq> [] \<and> (\<forall>x\<in>set addrs. listen_error env network x \<noteq> None) \<longrightarrow>
         Listen env address
           = ((None, listen_error env network (last addrs)), map (Pair network) addrs)))
   \<and> (resolveListen env address ''udp'' ''unixdgram'' ListenPacket_protocols
        = (network', addrs', None) \<longrightarrow>
      (addrs' = pre' @ a' # post' \<and> (\<forall>x\<in>set pre'. listen_packet_error env network' x \<noteq> None)
         \<and> listen_packet_error env network' a' = None \<longrightarrow>
       ListenPacket env address
         = ((Some (PacketConn network' a'), None), map (Pair network') (pre' @ [a'])))
      \<and> (addrs' \<noteq> [] \<and> (\<forall>x\<in>set addrs'. listen_packet_error env network' x \<noteq> None) \<longrightarrow>
         ListenPacket env address
           = ((None, listen_packet_error env network' (last addrs')), map (Pair network') addrs')))"
proof (intro conjI impI)
  assume r: "resolveListen env address ''tcp'' ''unix'' Listen_protocols = (network, addrs, None)"
  {
    assume h: "addrs = pre @ a # post \<and> (\<forall>x\<in>set pre. listen_error env network x \<noteq> None)
         \<and> listen_error env network a = None"
    then have "net_Listen env network a = (Some (Listener network a), None)"
      by (simp add: net_Listen_def)
    moreover from h have "\<forall>x\<in>set pre. snd (net_Listen env network x) \<noteq> None"
      by (auto simp: net_Listen_def split: option.splits)
    ultimately show "Listen env address
         = ((Some (Listener network a), None), map (Pair network) (pre @ [a]))"
      using r h try_addrs_first_success [of pre "net_Listen env" network a _ post "(None, None)" "[]"]
      by (simp add: Listen_def)
  }
  {
    assume h: "addrs \<noteq> [] \<and> (\<forall>x\<in>set addrs. listen_error env network x \<noteq> None)"
    then have "\<forall>x\<in>set addrs. snd (net_Listen env network x) \<noteq> None"
      by (auto simp: net_Listen_def split: option.splits)
    moreover from h have "net_Listen env network (last addrs)
        = (None, listen_error env network (last addrs))"
      by (simp add: net_Listen_last)
    ultimately show "Listen env address
           = ((None, listen_error env network (last addrs)), map (Pair network) addrs)"
      using r h try_addrs_all_fail [of addrs "net_Listen env" network "(None, None)" "[]"]
      by (simp add: Listen_def)
  }
next
  assume r: "resolveListen env address ''udp'' ''unixdgram'' ListenPacket_protocols
        = (network', addrs', None)"
  {
    assume h: "addrs' = pre' @ a' # post' \<and> (\<forall>x\<in>set pre'. listen_packet_error env network' x \<noteq> None)
         \<and> listen_packet_error env network' a' = None"
    then have "net_ListenPacket env network' a' = (Some (PacketConn network' a'), None)"
      by (simp add: net_ListenPacket_def)
    moreover from h have "\<forall>x\<in>set pre'. snd (net_ListenPacket env network' x) \<noteq> None"
      by (auto simp: net_ListenPacket_def split: option.splits)
    ultimately show "ListenPacket env address
         = ((Some (PacketConn network' a'), None), map (Pair network') (pre' @ [a']))"
      using r h try_addrs_first_success [of pre' "net_ListenPacket env" network' a' _ post' "(None, None)" "[]"]
      by (simp add: ListenPacket_def)
  }
  {
    assume h: "addrs' \<noteq> [] \<and> (\<forall>x\<in>set addrs'. listen_packet_error env network' x \<noteq> None)"
    then have "\<forall>x\<in>set addrs'. snd (net_ListenPacket env network' x) \<noteq> None"
      by (auto simp: net_ListenPacket_def split: option.splits)
    moreover from h have "net_ListenPacket env network' (last addrs')
        = (None, listen_packet_error env network' (last addrs'))"
      by (simp add: net_ListenPacket_last)
    ultimately show "ListenPacket env address
           = ((None, listen_packet_error env network' (last addrs')), map (Pair network') addrs')"
      using r h try_addrs_all_fail [of addrs' "net_ListenPacket env" network' "(None, None)" "[]"]
      by (simp add: ListenPacket_def)
  }
qed

theorem first_listener_or_last_error_witness:
  "Listen host_busy ''lo:80''
     = ((Some (Listener ''tcp'' ''[::1]:80''), None),
        [(''tcp'', ''127.0.0.1:80''), (''tcp'', ''[::1]:80'')])
   \<and> Listen host_down ''lo:80''
     = ((None, Some EACCES), [(''tcp'', ''127.0.0.1:80''), (''tcp'', ''[::1]:80'')])
   \<and> ListenPacket host_busy ''lo:80''
     = ((Some (PacketConn ''udp'' ''[::1]:80''), None),
        [(''udp'', ''127.0.0.1:80''), (''udp'', ''[::1]:80'')])
   \<and> ListenPacket host_down ''lo:80''
     = ((None, Some EACCES), [(''udp'', ''127.0.0.1:80''), (''udp'', ''[::1]:80'')])"
proof -
  have b: "listen_error host_busy network ''127.0.0.1:80'' \<noteq> None"
       "listen_error host_busy network ''[::1]:80'' = None"
       "listen_packet_error host_busy network ''127.0.0.1:80'' \<noteq> None"
       "listen_packet_error host_busy network ''[::1]:80'' = None" for network
    by (simp_all add: host_busy_def)
  have d: "listen_error host_down network ''127.0.0.1:80'' \<noteq> None"
       "listen_error host_down network ''[::1]:80'' = Some EACCES"
       "listen_packet_error host_down network ''127.0.0.1:80'' \<noteq> None"
       "listen_packet_error host_down network ''[::1]:80'' = Some EACCES" for network
    by (simp_all add: host_down_def)
  have 1: "Listen host_busy ''lo:80''
     = ((Some (Listener ''tcp'' ''[::1]:80''), None),
        [(''tcp'', ''127.0.0.1:80''), (''tcp'', ''[::1]:80'')])"
    using first_listener_or_last_error
      [of host_busy "''lo:80''" "''tcp''" "[''127.0.0.1:80'', ''[::1]:80'']"
          "[''127.0.0.1:80'']" "''[::1]:80''" "[]"]
      resolve_busy b
    by simp
  have 2: "Listen host_down ''lo:80''
     = ((None, Some EACCES), [(''tcp'', ''127.0.0.1:80''), (''tcp'', ''[::1]:80'')])"
    using first_listener_or_last_error
      [of host_down "''lo:80''" "''tcp''" "[''127.0.0.1:80'', ''[::1]:80'']"]
      resolve_down d
    by simp
  have 3: "ListenPacket host_busy ''lo:80''
     = ((Some (PacketConn ''udp'' ''[::1]:80''), None),
        [(''udp'', ''127.0.0.1:80''), (''udp'', ''[::1]:80'')])"
    using first_listener_or_last_error
      [of host_busy "''lo:80''" _ _ _ _ _ "''udp''" "[''127.0.0.1:80'', ''[::1]:80'']"
          "[''127.0.0.1:80'']" "''[::1]:80''" "[]"]
      resolve_busy b
    by simp
  have 4: "ListenPacket host_down ''lo:80''
     = ((None, Some EACCES), [(''udp'', ''127.0.0.1:80''), (''udp'', ''[::1]:80'')])"
    using first_listener_or_last_error
      [of host_down "''lo:80''" _ _ _ _ _ "''udp''" "[''127.0.0.1:80'', ''[::1]:80'']"]
      resolve_down d
    by simp
  from 1 2 3 4 show ?thesis by (intro conjI)
qed

section \<open>Properties of HandlerFunc\<close>

text \<open>
  C9.  The method \<open>ServeConn\<close> of \<open>HandlerFunc\<close> calls \<open>f\<close> on the connection and
  does nothing else; it has the connection as its only parameter, no context; and
  the method set of \<open>HandlerFunc\<close> does not implement \<open>Handler\<close>, whose
  \<open>ServeConn\<close> takes a connection and a context.
\<close>

theorem HandlerFunc_is_no_Handler:
  "HandlerFunc_ServeConn f c w = f c w
   \<and> list_all (\<lambda>m. params m = [net_Conn]) HandlerFunc_methods
   \<and> list_all (\<lambda>m. params m = [net_Conn, context_Context]) Handler_methods
   \<and> \<not> implements HandlerFunc_methods Handler_methods"
  by (simp add: HandlerFunc_ServeConn_def HandlerFunc_methods_def Handler_methods_def
        implements_def)

section \<open>Properties of Accept\<close>

lemma delay_update [simp]: "delay (b\<lparr>currentBackoff := d\<rparr>) i = delay b i"
  by (induction i) simp_all

lemma delay_closed_form:
  "backoff_floor b \<le> backoff_ceiling b \<Longrightarrow>
   delay b i = min (backoff_floor b * 2 ^ i) (backoff_ceiling b)"
  by (induction i) (simp_all add: min_def)

lemma Accept_retries:
  "Accept (map Temporary errs @ Accepted c # lstn) (errf srv) (b\<lparr>currentBackoff := delay b k\<rparr>) w =
     Some (Inr c, lstn, b\<lparr>currentBackoff := backoff_floor b\<rparr>,
           w @ concat (map (\<lambda>(err, d). [Printed (ErrorLog srv) (Accept_error err d), Slept d])
                         (zip errs (map (delay b) [k..<k + length errs]))))"
proof (induction errs arbitrary: k w)
  case Nil
  show ?case by simp
next
  case (Cons err errs)
  have u: "[k..<k + length (err # errs)] = k # [Suc k..<Suc k + length errs]"
    using upt_conv_Cons [of k "k + Suc (length errs)"] by simp
  have l: "errf srv err d w = w @ [Printed (ErrorLog srv) (Accept_error err d)]" for d
    by (simp add: errf_def logf_def split: option.splits)
  show ?case
    unfolding u using Cons.IH [of "Suc k"]
    by (simp add: l)
qed

text \<open>
  C4.  The backoff starts at its floor, which is not above the ceiling.  When the
  listener fails transiently with the errors \<open>errs\<close>, one after the other, and then
  delivers the connection \<open>c\<close>, \<open>Accept\<close> returns \<open>c\<close>.  On the way it reports each
  error to the callback of \<open>Serve\<close>, which prints it with the backoff in force,
  and then sleeps for that backoff; nothing else is printed or slept, so nothing
  delays the successful accept.  The backoff of the failure number \<open>i\<close> is the floor
  doubled \<open>i\<close> times, capped by the ceiling.  The backoff state returned is the
  initial one: the current backoff is the floor again.
\<close>

theorem Accept_backs_off:
  assumes "backoff_floor b \<le> backoff_ceiling b" and "currentBackoff b = backoff_floor b"
  shows "Accept (map Temporary errs @ Accepted c # lstn) (errf srv) b w =
           Some (Inr c, lstn, b,
                 w @ concat (map (\<lambda>(err, d). [Printed (ErrorLog srv) (Accept_error err d), Slept d])
                               (zip errs (map (delay b) [0..<length errs]))))
         \<and> (\<forall>i. delay b i = min (backoff_floor b * 2 ^ i) (backoff_ceiling b))"
proof -
  have b: "b\<lparr>currentBackoff := delay b 0\<rparr> = b" "b\<lparr>currentBackoff := backoff_floor b\<rparr> = b"
    using assms(2) by simp_all
  from Accept_retries [of errs c lstn srv b 0 w] delay_closed_form [OF assms(1)]
  show ?thesis unfolding b by simp
qed

theorem Accept_backs_off_witness:
  "backoff_floor example_backoff \<le> backoff_ceiling example_backoff
   \<and> currentBackoff example_backoff = backoff_floor example_backoff
   \<and> Accept [Temporary EBADF, Temporary EACCES, Temporary EBADF, Accepted conn1]
        (errf a_panicking_handler) example_backoff [] =
       Some (Inr conn1, [], example_backoff,
             [Printed None (Accept_error EBADF 5000000), Slept 5000000,
              Printed None (Accept_error EACCES 10000000), Slept 10000000,
              Printed None (Accept_error EBADF 20000000), Slept 20000000])
   \<and> delay example_backoff 8 = 1000000000"
proof -
  have f: "backoff_floor example_backoff \<le> backoff_ceiling example_backoff"
    and c: "currentBackoff example_backoff = backoff_floor example_backoff"
    by (simp_all add: example_backoff_def)
  have d: "delay example_backoff 0 = 5000000" "delay example_backoff (Suc 0) = 10000000"
    "delay example_backoff (Suc (Suc 0)) = 20000000"
    by (simp_all add: example_backoff_def)
  have e: "backoff_floor example_backoff = 5000000"
    "backoff_ceiling example_backoff = 1000000000"
    by (simp_all add: example_backoff_def)
  have u: "[0..<length [EBADF, EACCES, EBADF]] = [0, Suc 0, Suc (Suc 0)]"
    by (simp add: upt_conv_Cons)
  note t = Accept_backs_off [OF f c, of "[EBADF, EACCES, EBADF]" conn1 "[]" a_panicking_handler "[]"]
  from t have 1: "Accept [Temporary EBADF, Temporary EACCES, Temporary EBADF, Accepted conn1]
        (errf a_panicking_handler) example_backoff [] =
       Some (Inr conn1, [], example_backoff,
             [Printed None (Accept_error EBADF 5000000), Slept 5000000,
              Printed None (Accept_error EACCES 10000000), Slept 10000000,
              Printed None (Accept_error EBADF 20000000), Slept 20000000])"
    unfolding u by (simp add: e a_panicking_handler_def del: Accept.simps)
  from t have "delay example_backoff 8 = min (backoff_floor example_backoff * 2 ^ 8)
      (backoff_ceiling example_backoff)"
    by blast
  then have 2: "delay example_backoff 8 = 1000000000"
    by (simp add: example_backoff_def)
  from f c 1 2 show ?thesis by (intro conjI)
qed

section \<open>Properties of Serve\<close>

subsection \<open>The steps of a goroutine\<close>












lemma serve_pc: "serve srv t s = Some (t', s') \<Longrightarrow> pc s' = pc s"
  by (cases "at t")
     (auto simp: serve_def split: outcome.splits option.splits prod.splits if_splits)



subsection \<open>The invariant holds in every reachable state\<close>


lemma task_inv_update [simp]:
  "task_inv srv (s\<lparr>pc := a\<rparr>) t = task_inv srv s t"
  "task_inv srv (s\<lparr>cancelled := b\<rparr>) t = task_inv srv s t"
  "task_inv srv (s\<lparr>lstn_closed := c\<rparr>) t = task_inv srv s t"
  "task_inv srv (s\<lparr>join := d\<rparr>) t = task_inv srv s t"
  "task_inv srv (s\<lparr>tasks := e\<rparr>) t = task_inv srv s t"
  by (simp_all add: task_inv_def)







subsection \<open>The error returned and the connections dispatched\<close>






subsection \<open>Every scheduling is one step\<close>







subsection \<open>Runs of the example server\<close>







subsection \<open>Serve returns after its goroutines have called Done\<close>




subsection \<open>A panic of a handler\<close>




end
